theory Spec2Isabelle
  imports Main "HOL-Library.Word" "HOL-Library.Signed_Division"
begin

unbundle bit_operations_syntax

section \<open>Machine integers of the Go source\<close>

text \<open>
  Go's \<open>int\<close> and \<open>uint\<close> are taken at 64 bits (as on linux/amd64 and linux/arm64);
  \<open>uint32\<close> and \<open>int32\<close> are 32-bit. The conversion \<open>uint(x)\<close> keeps the bit pattern,
  so a \<open>go_int\<close> is read signed with \<open>sint\<close> (comparisons) and unsigned with \<open>unat\<close>
  (shift counts).
\<close>

type_synonym go_int = "64 word"
type_synonym uint32 = "32 word"
type_synonym int32 = "32 word"

text \<open>Go's \<open>x % y\<close> on \<open>int\<close>: the remainder of the division truncated towards zero.\<close>

definition go_rem :: "go_int \<Rightarrow> go_int \<Rightarrow> go_int" where
  "go_rem x y = word_of_int (sint x smod sint y)"

text \<open>
  \<open>1 << uint(n)\<close> where the untyped constant 1 takes the type \<open>uint32\<close> of the other
  operand of \<open>&\<close>: the bits shifted out are lost, a count of 32 or more gives 0 and
  nothing traps.
\<close>

definition shl1 :: "go_int \<Rightarrow> uint32" where
  "shl1 n = push_bit (unat n) 1"

section \<open>The kernel structures (package unix) and the two layouts (package internal)\<close>

record CapUserHeader =
  hdr_Version :: uint32
  hdr_Pid :: int32

record CapUserData =
  data_Effective :: uint32
  data_Permitted :: uint32
  data_Inheritable :: uint32

record CapabilityV1 =
  v1_Header :: CapUserHeader
  v1_Data :: CapUserData

text \<open>
  The fields of a struct carry the struct's name as a prefix (\<open>hdr_\<close>, \<open>data_\<close>,
  \<open>v1_\<close>, \<open>v3_\<close>), since \<open>Effective\<close>, \<open>Permitted\<close>, \<open>Inheritable\<close> and \<open>Ambient\<close>
  are also the names of the set kinds of package capabilities.
\<close>

text \<open>
  A Go array \<open>[2]T\<close> is a pair; \<open>index2\<close> is \<open>a[i]\<close>. The source only ever indexes with
  the local \<open>i\<close>, which is 0 or 1.
\<close>

type_synonym 'a array2 = "'a \<times> 'a"

definition index2 :: "'a array2 \<Rightarrow> nat \<Rightarrow> 'a" where
  "index2 a i = (if i = 0 then fst a else snd a)"

record CapabilityV3 =
  v3_Header :: CapUserHeader
  v3_Datap :: "CapUserData array2"
  v3_Bounds :: "uint32 array2"
  v3_Ambient :: "uint32 array2"

subsection \<open>Bit tests on the V1 layout\<close>

definition v1_IsEffectiveSet :: "CapabilityV1 \<Rightarrow> go_int \<Rightarrow> bool" where
  "v1_IsEffectiveSet x capability \<longleftrightarrow> shl1 capability AND data_Effective (v1_Data x) \<noteq> 0"

definition v1_IsPermittedSet :: "CapabilityV1 \<Rightarrow> go_int \<Rightarrow> bool" where
  "v1_IsPermittedSet x capability \<longleftrightarrow> shl1 capability AND data_Permitted (v1_Data x) \<noteq> 0"

definition v1_IsInheritableSet :: "CapabilityV1 \<Rightarrow> go_int \<Rightarrow> bool" where
  "v1_IsInheritableSet x capability \<longleftrightarrow> shl1 capability AND data_Inheritable (v1_Data x) \<noteq> 0"

subsection \<open>Bit tests on the V3 layout\<close>

text \<open>
  The five methods share their first lines: \<open>i\<close> starts at 0 and \<open>bitIndex\<close> at the
  capability; when \<open>bitIndex > 31\<close> (a signed comparison) \<open>i\<close> becomes 1 and \<open>bitIndex\<close>
  is reduced modulo 32. \<open>split_index\<close> returns the pair \<open>(i, bitIndex)\<close> they compute.
\<close>

definition split_index :: "go_int \<Rightarrow> nat \<times> go_int" where
  "split_index capability =
     (if 31 <s capability then (1, go_rem capability 32) else (0, capability))"

definition v3_IsEffectiveSet :: "CapabilityV3 \<Rightarrow> go_int \<Rightarrow> bool" where
  "v3_IsEffectiveSet x capability =
     (case split_index capability of
        (i, bitIndex) \<Rightarrow> shl1 bitIndex AND data_Effective (index2 (v3_Datap x) i) \<noteq> 0)"

definition v3_IsPermittedSet :: "CapabilityV3 \<Rightarrow> go_int \<Rightarrow> bool" where
  "v3_IsPermittedSet x capability =
     (case split_index capability of
        (i, bitIndex) \<Rightarrow> shl1 bitIndex AND data_Permitted (index2 (v3_Datap x) i) \<noteq> 0)"

definition v3_IsInheritableSet :: "CapabilityV3 \<Rightarrow> go_int \<Rightarrow> bool" where
  "v3_IsInheritableSet x capability =
     (case split_index capability of
        (i, bitIndex) \<Rightarrow> shl1 bitIndex AND data_Inheritable (index2 (v3_Datap x) i) \<noteq> 0)"

definition v3_IsBoundingSet :: "CapabilityV3 \<Rightarrow> go_int \<Rightarrow> bool" where
  "v3_IsBoundingSet x capability =
     (case split_index capability of
        (i, bitIndex) \<Rightarrow> shl1 bitIndex AND index2 (v3_Bounds x) i \<noteq> 0)"

definition v3_IsAmbientSet :: "CapabilityV3 \<Rightarrow> go_int \<Rightarrow> bool" where
  "v3_IsAmbientSet x capability =
     (case split_index capability of
        (i, bitIndex) \<Rightarrow> shl1 bitIndex AND index2 (v3_Ambient x) i \<noteq> 0)"

section \<open>The query facade (package capabilities)\<close>

subsection \<open>Set kinds, version constants, errors\<close>

text \<open>
  \<open>CapabilitySet\<close> is a named \<open>int\<close> type: the five constants are its documented values,
  and any other integer is a well-typed argument that falls to the \<open>default\<close> branch of
  a \<open>switch\<close>.
\<close>

type_synonym CapabilitySet = go_int

definition Effective :: CapabilitySet where "Effective = 0"
definition Permitted :: CapabilitySet where "Permitted = 1"
definition Inheritable :: CapabilitySet where "Inheritable = 2"
definition Bounding :: CapabilitySet where "Bounding = 3"
definition Ambient :: CapabilitySet where "Ambient = 4"

text \<open>
  The version words of the kernel ABI, as package \<open>golang.org/x/sys/unix\<close> (imported
  by the source, not part of it) defines them from \<open>linux/capability.h\<close>.
\<close>

definition LINUX_CAPABILITY_VERSION_1 :: uint32 where
  "LINUX_CAPABILITY_VERSION_1 = 0x19980330"

definition LINUX_CAPABILITY_VERSION_2 :: uint32 where
  "LINUX_CAPABILITY_VERSION_2 = 0x20071026"

definition LINUX_CAPABILITY_VERSION_3 :: uint32 where
  "LINUX_CAPABILITY_VERSION_3 = 0x20080522"

text \<open>
  A value of Go's \<open>error\<close> interface is \<open>None\<close> for \<open>nil\<close>, and otherwise either made
  by \<open>errors.New\<close> with its message or an error number that the system call gave.
\<close>

datatype error = New string | Errno nat

text \<open>A call either returns its results or panics with a message.\<close>

datatype 'a outcome = Returns 'a | Panics string

subsection \<open>The operating system\<close>

text \<open>
  What the source gets from outside: \<open>os.Getpid()\<close> and \<open>unix.Capget(hdr, data)\<close>.
  \<open>Capget\<close> receives the header and the records its data pointer designates (none for
  \<open>nil\<close>, one for \<open>&c.v1.Data\<close>, two for \<open>&c.v3.Datap[0]\<close>) and gives back the error, the
  header and the records as the kernel left them. The kernel is any such function: it
  may fail, and it may rewrite the header. It is taken to write inside the buffer it was
  handed: \<open>written\<close> reads record \<open>i\<close> back, and keeps the old record where the kernel
  returned fewer.
\<close>

record os =
  Getpid :: go_int
  Capget :: "CapUserHeader \<Rightarrow> CapUserData list \<Rightarrow> error option \<times> CapUserHeader \<times> CapUserData list"

definition written :: "CapUserData list \<Rightarrow> nat \<Rightarrow> CapUserData \<Rightarrow> CapUserData" where
  "written new i old = (if i < length new then new ! i else old)"

subsection \<open>The instance\<close>

record Capabilities =
  cap_v3 :: CapabilityV3
  cap_v1 :: CapabilityV1
  Version :: go_int

text \<open>The zero values that \<open>var header unix.CapUserHeader\<close> and \<open>var capability Capabilities\<close> declare.\<close>

definition zero_header :: CapUserHeader where
  "zero_header = \<lparr>hdr_Version = 0, hdr_Pid = 0\<rparr>"

definition zero_data :: CapUserData where
  "zero_data = \<lparr>data_Effective = 0, data_Permitted = 0, data_Inheritable = 0\<rparr>"

definition zero_Capabilities :: Capabilities where
  "zero_Capabilities =
     \<lparr>cap_v3 = \<lparr>v3_Header = zero_header, v3_Datap = (zero_data, zero_data),
                v3_Bounds = (0, 0), v3_Ambient = (0, 0)\<rparr>,
      cap_v1 = \<lparr>v1_Header = zero_header, v1_Data = zero_data\<rparr>,
      Version = 0\<rparr>"

subsection \<open>Init\<close>

definition Init :: "os \<Rightarrow> (Capabilities option \<times> error option) outcome" where
  "Init sys =
     (case Capget sys zero_header [] of
        (err, header, _) \<Rightarrow>
          if err \<noteq> None then Returns (None, Some (New ''unable to probe capability version''))
          else if hdr_Version header = LINUX_CAPABILITY_VERSION_1 then
            Returns (Some (zero_Capabilities
              \<lparr>Version := 1,
               cap_v1 := (cap_v1 zero_Capabilities)\<lparr>v1_Header := header\<rparr>\<rparr>), None)
          else if hdr_Version header = LINUX_CAPABILITY_VERSION_2 then
            Returns (Some (zero_Capabilities
              \<lparr>Version := 2,
               cap_v3 := (cap_v3 zero_Capabilities)\<lparr>v3_Header := header\<rparr>\<rparr>), None)
          else if hdr_Version header = LINUX_CAPABILITY_VERSION_3 then
            Returns (Some (zero_Capabilities
              \<lparr>Version := 3,
               cap_v3 := (cap_v3 zero_Capabilities)\<lparr>v3_Header := header\<rparr>\<rparr>), None)
          else Panics ''Unsupported Linux capability version'')"

subsection \<open>isSetFor and IsSet\<close>

text \<open>
  The receiver is a pointer and the call writes through it, so the model returns the
  instance as the call leaves it, then the two results. \<open>int32(pid)\<close> keeps the low 32
  bits.
\<close>

definition isSetFor ::
  "os \<Rightarrow> Capabilities \<Rightarrow> go_int \<Rightarrow> go_int \<Rightarrow> CapabilitySet \<Rightarrow> Capabilities \<times> bool \<times> error option"
where
  "isSetFor sys c pid capability capSet =
     (if Version c <s 1 \<or> 3 <s Version c then
        (c, False, Some (New ''invalid capability version''))
      else if Version c = 1 then
        (case Capget sys
                ((v1_Header (cap_v1 c))
                   \<lparr>hdr_Version := LINUX_CAPABILITY_VERSION_1, hdr_Pid := ucast pid\<rparr>)
                [v1_Data (cap_v1 c)] of
           (err, header, data) \<Rightarrow>
             let c' = c\<lparr>cap_v1 :=
                         \<lparr>v1_Header = header,
                          v1_Data = written data 0 (v1_Data (cap_v1 c))\<rparr>\<rparr>
             in if err \<noteq> None then (c', False, err)
                else if capSet = Effective then
                  (c', v1_IsEffectiveSet (cap_v1 c') capability, None)
                else if capSet = Inheritable then
                  (c', v1_IsInheritableSet (cap_v1 c') capability, None)
                else if capSet = Permitted then
                  (c', v1_IsPermittedSet (cap_v1 c') capability, None)
                else (c', False, Some (New ''invalid capability set for capability v1'')))
      else
        (case Capget sys
                ((v3_Header (cap_v3 c))
                   \<lparr>hdr_Version :=
                      (if Version c = 2 then LINUX_CAPABILITY_VERSION_2
                       else if Version c = 3 then LINUX_CAPABILITY_VERSION_3
                       else hdr_Version (v3_Header (cap_v3 c))),
                    hdr_Pid := ucast pid\<rparr>)
                [fst (v3_Datap (cap_v3 c)), snd (v3_Datap (cap_v3 c))] of
           (err, header, data) \<Rightarrow>
             let c' = c\<lparr>cap_v3 :=
                         (cap_v3 c)
                           \<lparr>v3_Header := header,
                            v3_Datap :=
                              (written data 0 (fst (v3_Datap (cap_v3 c))),
                               written data 1 (snd (v3_Datap (cap_v3 c))))\<rparr>\<rparr>
             in if err \<noteq> None then (c', False, err)
                else if capSet = Effective then
                  (c', v3_IsEffectiveSet (cap_v3 c') capability, None)
                else if capSet = Permitted then
                  (c', v3_IsPermittedSet (cap_v3 c') capability, None)
                else if capSet = Inheritable then
                  (c', v3_IsInheritableSet (cap_v3 c') capability, None)
                else if capSet = Bounding then
                  (c', v3_IsBoundingSet (cap_v3 c') capability, None)
                else if capSet = Ambient then
                  (c', v3_IsAmbientSet (cap_v3 c') capability, None)
                else (c', False,
                      Some (New ''invalid capability set for capability v2 or v3''))))"

text \<open>\<open>IsSet\<close> takes a pid and passes \<open>os.Getpid()\<close> on.\<close>

definition IsSet ::
  "os \<Rightarrow> Capabilities \<Rightarrow> go_int \<Rightarrow> go_int \<Rightarrow> CapabilitySet \<Rightarrow> Capabilities \<times> bool \<times> error option"
where
  "IsSet sys c pid capability capSet = isSetFor sys c (Getpid sys) capability capSet"

subsection \<open>Sequences of queries on one instance\<close>

text \<open>
  A query is a call of either method with its arguments, made while the operating
  system behaves as \<open>q_sys\<close> (the kernel's answers may change from one call to the
  next). \<open>run_queries\<close> makes the calls in order on the same instance and drops their
  results.
\<close>

record query =
  q_sys :: os
  q_public :: bool
  q_pid :: go_int
  q_capability :: go_int
  q_capSet :: CapabilitySet

definition run_query :: "Capabilities \<Rightarrow> query \<Rightarrow> Capabilities" where
  "run_query c q =
     fst ((if q_public q then IsSet else isSetFor)
            (q_sys q) c (q_pid q) (q_capability q) (q_capSet q))"

fun run_queries :: "Capabilities \<Rightarrow> query list \<Rightarrow> Capabilities" where
  "run_queries c [] = c"
| "run_queries c (q # qs) = run_queries (run_query c q) qs"

section \<open>Example snapshots, kernels and instances\<close>

text \<open>A V1 snapshot whose three words are \<open>0b101\<close>, and one with every bit set.\<close>

definition example_v1 :: CapabilityV1 where
  "example_v1 =
     \<lparr>v1_Header = zero_header,
      v1_Data = \<lparr>data_Effective = 5, data_Permitted = 5, data_Inheritable = 5\<rparr>\<rparr>"

definition all_set_v1 :: CapabilityV1 where
  "all_set_v1 =
     \<lparr>v1_Header = zero_header,
      v1_Data = \<lparr>data_Effective = 0xFFFFFFFF, data_Permitted = 0xFFFFFFFF,
                 data_Inheritable = 0xFFFFFFFF\<rparr>\<rparr>"

text \<open>
  A V3 snapshot where every set has bit 31 of its first word and bit 0 of its second
  word set, and nothing else: the capabilities 31 and 32.
\<close>

definition example_v3 :: CapabilityV3 where
  "example_v3 =
     \<lparr>v3_Header = zero_header,
      v3_Datap =
        (\<lparr>data_Effective = 0x80000000, data_Permitted = 0x80000000,
          data_Inheritable = 0x80000000\<rparr>,
         \<lparr>data_Effective = 1, data_Permitted = 1, data_Inheritable = 1\<rparr>),
      v3_Bounds = (0x80000000, 1),
      v3_Ambient = (0x80000000, 1)\<rparr>"

text \<open>
  A kernel that answers the probe (no data buffer) with the version word \<open>v\<close>. The
  calling process is 4242 and holds no capability; process 1 holds capability 0 in its
  effective and permitted sets; no other process exists, and a query for one fails with
  error number 3 (\<open>ESRCH\<close>).
\<close>

definition init_data :: CapUserData where
  "init_data = \<lparr>data_Effective = 1, data_Permitted = 1, data_Inheritable = 0\<rparr>"

definition example_sys :: "uint32 \<Rightarrow> os" where
  "example_sys v =
     \<lparr>Getpid = 4242,
      Capget = (\<lambda>h buf.
        if buf = [] then (None, h\<lparr>hdr_Version := v\<rparr>, [])
        else if hdr_Pid h = 1 then (None, h, map (\<lambda>_. init_data) buf)
        else if hdr_Pid h = 4242 then (None, h, map (\<lambda>_. zero_data) buf)
        else (Some (Errno 3), h, buf))\<rparr>"

text \<open>The instances that \<open>Init\<close> returns on that kernel for the version words 1 and 3.\<close>

definition instance_v1 :: Capabilities where
  "instance_v1 =
     \<lparr>cap_v3 = \<lparr>v3_Header = zero_header, v3_Datap = (zero_data, zero_data),
                v3_Bounds = (0, 0), v3_Ambient = (0, 0)\<rparr>,
      cap_v1 = \<lparr>v1_Header = \<lparr>hdr_Version = LINUX_CAPABILITY_VERSION_1, hdr_Pid = 0\<rparr>,
                v1_Data = zero_data\<rparr>,
      Version = 1\<rparr>"

definition instance_v3 :: Capabilities where
  "instance_v3 =
     \<lparr>cap_v3 = \<lparr>v3_Header = \<lparr>hdr_Version = LINUX_CAPABILITY_VERSION_3, hdr_Pid = 0\<rparr>,
                v3_Datap = (zero_data, zero_data),
                v3_Bounds = (0, 0), v3_Ambient = (0, 0)\<rparr>,
      cap_v1 = \<lparr>v1_Header = zero_header, v1_Data = zero_data\<rparr>,
      Version = 3\<rparr>"

text \<open>
  Three queries on the kernel of version word 3: the public method for process 1, the
  internal one for process 1, and the internal one for a process that does not exist.
\<close>

definition example_queries :: "query list" where
  "example_queries =
     [\<lparr>q_sys = example_sys LINUX_CAPABILITY_VERSION_3, q_public = True, q_pid = 1,
       q_capability = 0, q_capSet = Effective\<rparr>,
      \<lparr>q_sys = example_sys LINUX_CAPABILITY_VERSION_3, q_public = False, q_pid = 1,
       q_capability = 0, q_capSet = Permitted\<rparr>,
      \<lparr>q_sys = example_sys LINUX_CAPABILITY_VERSION_3, q_public = False, q_pid = 77,
       q_capability = 40, q_capSet = Bounding\<rparr>]"

section \<open>Shifts and indices\<close>

lemma shl1_test: "shl1 n AND w \<noteq> 0 \<longleftrightarrow> bit w (unat n)"
proof -
  have "w AND 2 ^ unat n = 0 \<longleftrightarrow> \<not> bit w (unat n)"
    by (rule and_exp_eq_0_iff_not_bit)
  then show ?thesis
    by (simp add: shl1_def and.commute)
qed

lemma sint_nonneg_uint:
  fixes n :: go_int
  assumes "0 \<le>s n"
  shows "uint n = sint n"
proof -
  from assms have nonneg: "0 \<le> sint n"
    by (simp add: word_sle_eq)
  have "sint n < 2 ^ 63"
    using sint_lt [of n] by simp
  then have "sint n < 2 ^ 64"
    by simp
  with nonneg have "take_bit 64 (sint n) = sint n"
    by (simp add: take_bit_int_eq_self)
  then show ?thesis
    using uint_sint [of n] by simp
qed

lemma unat_nonneg:
  fixes n :: go_int
  assumes "0 \<le>s n"
  shows "unat n = nat (sint n)"
  using sint_nonneg_uint [OF assms] by (simp add: unat_eq_nat_uint)

lemma nonneg_of_gt31:
  fixes n :: go_int
  assumes "31 <s n"
  shows "0 \<le>s n"
  using assms by (simp add: word_sless_alt word_sle_eq)

lemma go_rem_32:
  fixes n :: go_int
  assumes "31 <s n"
  shows "go_rem n 32 = word_of_nat (unat n mod 32)"
proof -
  from assms have gt: "31 < sint n"
    by (simp add: word_sless_alt)
  have eq: "sint n = int (unat n)"
    using nonneg_of_gt31 [OF assms] by (simp add: sint_nonneg_uint)
  have "sint n smod 32 = sint n mod 32"
    using gt by (simp add: smod_int_alt_def)
  then have "sint n smod sint (32 :: go_int) = int (unat n mod 32)"
    by (simp only: eq zmod_int) simp
  then show ?thesis
    by (simp only: go_rem_def) simp
qed

lemma unat_small:
  assumes "k < 64"
  shows "unat (word_of_nat k :: go_int) = k"
proof -
  have "k < 2 ^ 64"
    using assms by (rule less_trans) simp
  then show ?thesis
    by (simp add: unat_of_nat take_bit_nat_eq_self)
qed

lemma unat_go_rem_32:
  fixes n :: go_int
  assumes "31 <s n"
  shows "unat (go_rem n 32) = unat n mod 32"
proof -
  have "unat n mod 32 < 64"
    by (rule less_trans [of _ 32]) simp_all
  then show ?thesis
    by (simp only: go_rem_32 [OF assms] unat_small)
qed

lemma v3_IsEffectiveSet_bit:
  "v3_IsEffectiveSet x n =
     (if 31 <s n then bit (data_Effective (snd (v3_Datap x))) (unat n mod 32)
      else bit (data_Effective (fst (v3_Datap x))) (unat n))"
  by (simp add: v3_IsEffectiveSet_def split_index_def index2_def shl1_test unat_go_rem_32)

lemma v3_IsPermittedSet_bit:
  "v3_IsPermittedSet x n =
     (if 31 <s n then bit (data_Permitted (snd (v3_Datap x))) (unat n mod 32)
      else bit (data_Permitted (fst (v3_Datap x))) (unat n))"
  by (simp add: v3_IsPermittedSet_def split_index_def index2_def shl1_test unat_go_rem_32)

lemma v3_IsInheritableSet_bit:
  "v3_IsInheritableSet x n =
     (if 31 <s n then bit (data_Inheritable (snd (v3_Datap x))) (unat n mod 32)
      else bit (data_Inheritable (fst (v3_Datap x))) (unat n))"
  by (simp add: v3_IsInheritableSet_def split_index_def index2_def shl1_test unat_go_rem_32)

lemma v3_IsBoundingSet_bit:
  "v3_IsBoundingSet x n =
     (if 31 <s n then bit (snd (v3_Bounds x)) (unat n mod 32)
      else bit (fst (v3_Bounds x)) (unat n))"
  by (simp add: v3_IsBoundingSet_def split_index_def index2_def shl1_test unat_go_rem_32)

lemma v3_IsAmbientSet_bit:
  "v3_IsAmbientSet x n =
     (if 31 <s n then bit (snd (v3_Ambient x)) (unat n mod 32)
      else bit (fst (v3_Ambient x)) (unat n))"
  by (simp add: v3_IsAmbientSet_def split_index_def index2_def shl1_test unat_go_rem_32)

lemmas v3_bit = v3_IsEffectiveSet_bit v3_IsPermittedSet_bit v3_IsInheritableSet_bit
  v3_IsBoundingSet_bit v3_IsAmbientSet_bit

lemma v1_IsEffectiveSet_bit: "v1_IsEffectiveSet x n = bit (data_Effective (v1_Data x)) (unat n)"
  by (simp add: v1_IsEffectiveSet_def shl1_test)

lemma v1_IsPermittedSet_bit: "v1_IsPermittedSet x n = bit (data_Permitted (v1_Data x)) (unat n)"
  by (simp add: v1_IsPermittedSet_def shl1_test)

lemma v1_IsInheritableSet_bit: "v1_IsInheritableSet x n = bit (data_Inheritable (v1_Data x)) (unat n)"
  by (simp add: v1_IsInheritableSet_def shl1_test)

lemmas v1_bit = v1_IsEffectiveSet_bit v1_IsPermittedSet_bit v1_IsInheritableSet_bit

lemma bit_5:
  fixes k :: nat
  shows "bit (5 :: uint32) k \<longleftrightarrow> k = 0 \<or> k = 2"
proof (cases k)
  case 0
  then show ?thesis by simp
next
  case (Suc k1)
  show ?thesis
  proof (cases k1)
    case 0
    with Suc show ?thesis by (simp add: bit_Suc)
  next
    case (Suc k2)
    show ?thesis
    proof (cases k2)
      case 0
      with \<open>k = Suc k1\<close> \<open>k1 = Suc k2\<close> show ?thesis by (simp add: bit_Suc)
    next
      case (Suc k3)
      with \<open>k = Suc k1\<close> \<open>k1 = Suc k2\<close> show ?thesis by (simp add: bit_Suc)
    qed
  qed
qed

lemma unat_eq_2:
  fixes n :: go_int
  shows "unat n = 2 \<longleftrightarrow> n = 2"
proof
  assume "unat n = 2"
  then have "(word_of_nat (unat n) :: go_int) = word_of_nat 2"
    by (simp only:)
  then show "n = 2"
    by simp
next
  assume "n = 2"
  then show "unat n = 2"
    by simp
qed

lemma bit_5_go_int:
  fixes n :: go_int
  shows "bit (5 :: uint32) (unat n) \<longleftrightarrow> n = 0 \<or> n = 2"
  by (simp only: bit_5 unat_eq_2 unat_eq_zero)

lemma unat_ge32:
  fixes n :: go_int
  assumes "31 <s n"
  shows "32 \<le> unat n"
proof -
  from assms have "31 < sint n"
    by (simp add: word_sless_alt)
  then have "31 < uint n"
    using sint_nonneg_uint [OF nonneg_of_gt31 [OF assms]] by simp
  then have "int 32 \<le> int (unat n)"
    by simp
  then show ?thesis
    by (simp only: of_nat_le_iff)
qed

lemma gt31_iff:
  fixes n :: go_int
  shows "31 <s n \<longleftrightarrow> 32 \<le>s n"
proof -
  have "31 < sint n \<longleftrightarrow> 32 \<le> sint n"
    by arith
  then show ?thesis
    by (simp add: word_sless_alt word_sle_eq)
qed

lemma not_bit32:
  fixes w :: uint32
  assumes "32 \<le> k"
  shows "\<not> bit w k"
  using assms bit_imp_le_length [of w k] by auto

lemma wrapped_index:
  fixes n :: go_int
  assumes "31 <s n"
  shows "31 <s 32 + go_rem n 32" and "unat (32 + go_rem n 32) mod 32 = unat n mod 32"
proof -
  define k where "k = unat n mod 32"
  have k: "k < 32"
    by (simp add: k_def)
  have "32 + go_rem n 32 = word_of_nat (32 + k)"
    by (simp add: go_rem_32 [OF assms] k_def)
  moreover have u: "unat (word_of_nat (32 + k) :: go_int) = 32 + k"
    using k by (intro unat_small) simp
  ultimately have un: "unat (32 + go_rem n 32) = 32 + k"
    by simp
  then show "unat (32 + go_rem n 32) mod 32 = unat n mod 32"
    by (simp add: k_def)
  from un have ui: "uint (32 + go_rem n 32) = 32 + int k"
    by (metis of_nat_add of_nat_numeral uint_nat)
  have "sint (32 + go_rem n 32) = signed_take_bit 63 (uint (32 + go_rem n 32))"
    using sint_uint [of "32 + go_rem n 32"] by simp
  also have "\<dots> = 32 + int k"
    using k by (simp add: ui signed_take_bit_int_eq_self)
  finally show "31 <s 32 + go_rem n 32"
    by (simp add: word_sless_alt)
qed

section \<open>The V1 layout\<close>

text \<open>
  Claim C3. For a capability index from 0 to 31, each of the three V1 predicates is true
  exactly when bit \<open>n\<close> of the word of its set kind is set. With the word \<open>0b101\<close> that
  is the case for the indices 0 and 2 and for no other index up to 31.
\<close>

theorem v1_predicates_test_bit:
  assumes "0 \<le>s n" and "n \<le>s 31"
  shows "v1_IsEffectiveSet x n = bit (data_Effective (v1_Data x)) (nat (sint n)) \<and>
         v1_IsPermittedSet x n = bit (data_Permitted (v1_Data x)) (nat (sint n)) \<and>
         v1_IsInheritableSet x n = bit (data_Inheritable (v1_Data x)) (nat (sint n)) \<and>
         (data_Effective (v1_Data x) = 5 \<longrightarrow> v1_IsEffectiveSet x n = (n = 0 \<or> n = 2)) \<and>
         (data_Permitted (v1_Data x) = 5 \<longrightarrow> v1_IsPermittedSet x n = (n = 0 \<or> n = 2)) \<and>
         (data_Inheritable (v1_Data x) = 5 \<longrightarrow> v1_IsInheritableSet x n = (n = 0 \<or> n = 2))"
  using unat_nonneg [OF assms(1)] bit_5_go_int [of n] by (simp add: v1_bit)

theorem v1_predicates_test_bit_witness:
  "(0 :: go_int) \<le>s 2 \<and> (2 :: go_int) \<le>s 31 \<and>
   data_Effective (v1_Data example_v1) = 5 \<and> data_Permitted (v1_Data example_v1) = 5 \<and>
   data_Inheritable (v1_Data example_v1) = 5 \<and>
   v1_IsEffectiveSet example_v1 2 \<and> v1_IsPermittedSet example_v1 2 \<and>
   v1_IsInheritableSet example_v1 2"
  using v1_predicates_test_bit [of 2 example_v1] by (simp add: example_v1_def word_sle_eq)

text \<open>
  Claim C9. For a capability index of 32 or more, the three V1 predicates return false
  on every snapshot: the 32-bit shift gives 0. They are total functions to \<open>bool\<close>, so
  there is no error and no trap.
\<close>

theorem v1_out_of_range_false:
  assumes "32 \<le>s n"
  shows "\<not> v1_IsEffectiveSet x n \<and> \<not> v1_IsPermittedSet x n \<and> \<not> v1_IsInheritableSet x n"
proof -
  from assms have "32 \<le> unat n"
    by (simp add: unat_ge32 gt31_iff)
  then show ?thesis
    by (simp add: v1_bit not_bit32)
qed

theorem v1_out_of_range_false_witness:
  "(32 :: go_int) \<le>s 32 \<and> data_Effective (v1_Data all_set_v1) = 0xFFFFFFFF \<and>
   \<not> v1_IsEffectiveSet all_set_v1 32 \<and> \<not> v1_IsPermittedSet all_set_v1 32 \<and>
   \<not> v1_IsInheritableSet all_set_v1 32"
  using v1_out_of_range_false [of 32 all_set_v1] by (simp add: all_set_v1_def)

section \<open>The V3 layout\<close>

text \<open>
  Claim C2. For a capability index from 0 to 63, each of the five V3 predicates is true
  exactly when bit \<open>n mod 32\<close> of word \<open>w\<close> of its set's two words is set, where \<open>w\<close> is 1
  for \<open>n > 31\<close> and 0 otherwise. Index 31 is bit 31 of the first word, index 32 is bit 0
  of the second word and index 63 is bit 31 of the second word.
\<close>

theorem v3_predicates_test_bit:
  assumes "0 \<le>s n" and "n \<le>s 63"
  shows "(let w = (if 31 <s n then 1 else 0); b = nat (sint n) mod 32 in
           v3_IsEffectiveSet x n = bit (data_Effective (index2 (v3_Datap x) w)) b \<and>
           v3_IsPermittedSet x n = bit (data_Permitted (index2 (v3_Datap x) w)) b \<and>
           v3_IsInheritableSet x n = bit (data_Inheritable (index2 (v3_Datap x) w)) b \<and>
           v3_IsBoundingSet x n = bit (index2 (v3_Bounds x) w) b \<and>
           v3_IsAmbientSet x n = bit (index2 (v3_Ambient x) w) b) \<and>
         v3_IsEffectiveSet x 31 = bit (data_Effective (fst (v3_Datap x))) 31 \<and>
         v3_IsEffectiveSet x 32 = bit (data_Effective (snd (v3_Datap x))) 0 \<and>
         v3_IsEffectiveSet x 63 = bit (data_Effective (snd (v3_Datap x))) 31 \<and>
         v3_IsPermittedSet x 31 = bit (data_Permitted (fst (v3_Datap x))) 31 \<and>
         v3_IsPermittedSet x 32 = bit (data_Permitted (snd (v3_Datap x))) 0 \<and>
         v3_IsPermittedSet x 63 = bit (data_Permitted (snd (v3_Datap x))) 31 \<and>
         v3_IsInheritableSet x 31 = bit (data_Inheritable (fst (v3_Datap x))) 31 \<and>
         v3_IsInheritableSet x 32 = bit (data_Inheritable (snd (v3_Datap x))) 0 \<and>
         v3_IsInheritableSet x 63 = bit (data_Inheritable (snd (v3_Datap x))) 31 \<and>
         v3_IsBoundingSet x 31 = bit (fst (v3_Bounds x)) 31 \<and>
         v3_IsBoundingSet x 32 = bit (snd (v3_Bounds x)) 0 \<and>
         v3_IsBoundingSet x 63 = bit (snd (v3_Bounds x)) 31 \<and>
         v3_IsAmbientSet x 31 = bit (fst (v3_Ambient x)) 31 \<and>
         v3_IsAmbientSet x 32 = bit (snd (v3_Ambient x)) 0 \<and>
         v3_IsAmbientSet x 63 = bit (snd (v3_Ambient x)) 31"
proof -
  have general: "let w = (if 31 <s n then 1 else 0); b = nat (sint n) mod 32 in
           v3_IsEffectiveSet x n = bit (data_Effective (index2 (v3_Datap x) w)) b \<and>
           v3_IsPermittedSet x n = bit (data_Permitted (index2 (v3_Datap x) w)) b \<and>
           v3_IsInheritableSet x n = bit (data_Inheritable (index2 (v3_Datap x) w)) b \<and>
           v3_IsBoundingSet x n = bit (index2 (v3_Bounds x) w) b \<and>
           v3_IsAmbientSet x n = bit (index2 (v3_Ambient x) w) b"
  proof (cases "31 <s n")
    case True
    then show ?thesis
      using unat_nonneg [OF assms(1)] by (simp add: v3_bit index2_def)
  next
    case False
    then have "sint n \<le> 31"
      by (simp add: word_sless_alt)
    moreover from assms(1) have "0 \<le> sint n"
      by (simp add: word_sle_eq)
    ultimately have "nat (sint n) mod 32 = nat (sint n)"
      by simp
    with False show ?thesis
      using unat_nonneg [OF assms(1)] by (simp add: v3_bit index2_def)
  qed
  have particular:
    "v3_IsEffectiveSet x 31 = bit (data_Effective (fst (v3_Datap x))) 31"
    "v3_IsEffectiveSet x 32 = bit (data_Effective (snd (v3_Datap x))) 0"
    "v3_IsEffectiveSet x 63 = bit (data_Effective (snd (v3_Datap x))) 31"
    "v3_IsPermittedSet x 31 = bit (data_Permitted (fst (v3_Datap x))) 31"
    "v3_IsPermittedSet x 32 = bit (data_Permitted (snd (v3_Datap x))) 0"
    "v3_IsPermittedSet x 63 = bit (data_Permitted (snd (v3_Datap x))) 31"
    "v3_IsInheritableSet x 31 = bit (data_Inheritable (fst (v3_Datap x))) 31"
    "v3_IsInheritableSet x 32 = bit (data_Inheritable (snd (v3_Datap x))) 0"
    "v3_IsInheritableSet x 63 = bit (data_Inheritable (snd (v3_Datap x))) 31"
    "v3_IsBoundingSet x 31 = bit (fst (v3_Bounds x)) 31"
    "v3_IsBoundingSet x 32 = bit (snd (v3_Bounds x)) 0"
    "v3_IsBoundingSet x 63 = bit (snd (v3_Bounds x)) 31"
    "v3_IsAmbientSet x 31 = bit (fst (v3_Ambient x)) 31"
    "v3_IsAmbientSet x 32 = bit (snd (v3_Ambient x)) 0"
    "v3_IsAmbientSet x 63 = bit (snd (v3_Ambient x)) 31"
    by (simp_all add: v3_bit)
  from general particular show ?thesis
    by (simp only: simp_thms)
qed

theorem v3_predicates_test_bit_witness:
  "(0 :: go_int) \<le>s 32 \<and> (32 :: go_int) \<le>s 63 \<and>
   v3_IsEffectiveSet example_v3 32 \<and> v3_IsPermittedSet example_v3 32 \<and>
   v3_IsInheritableSet example_v3 32 \<and> v3_IsBoundingSet example_v3 32 \<and>
   v3_IsAmbientSet example_v3 32 \<and>
   v3_IsEffectiveSet example_v3 31 \<and> \<not> v3_IsEffectiveSet example_v3 63"
  using v3_predicates_test_bit [of 32 example_v3]
  by (simp add: example_v3_def index2_def word_sle_eq)

text \<open>
  Claim C7. For a capability index from 0 to 63 and each set kind, if both words of
  that set are zero then its V3 predicate returns false.
\<close>

theorem v3_zero_words_false:
  assumes "0 \<le>s n" and "n \<le>s 63"
  shows "(data_Effective (fst (v3_Datap x)) = 0 \<and> data_Effective (snd (v3_Datap x)) = 0
            \<longrightarrow> \<not> v3_IsEffectiveSet x n) \<and>
         (data_Permitted (fst (v3_Datap x)) = 0 \<and> data_Permitted (snd (v3_Datap x)) = 0
            \<longrightarrow> \<not> v3_IsPermittedSet x n) \<and>
         (data_Inheritable (fst (v3_Datap x)) = 0 \<and> data_Inheritable (snd (v3_Datap x)) = 0
            \<longrightarrow> \<not> v3_IsInheritableSet x n) \<and>
         (fst (v3_Bounds x) = 0 \<and> snd (v3_Bounds x) = 0 \<longrightarrow> \<not> v3_IsBoundingSet x n) \<and>
         (fst (v3_Ambient x) = 0 \<and> snd (v3_Ambient x) = 0 \<longrightarrow> \<not> v3_IsAmbientSet x n)"
  by (simp add: v3_bit)

theorem v3_zero_words_false_witness:
  "(0 :: go_int) \<le>s 40 \<and> (40 :: go_int) \<le>s 63 \<and>
   data_Effective (fst (v3_Datap (cap_v3 zero_Capabilities))) = 0 \<and>
   data_Effective (snd (v3_Datap (cap_v3 zero_Capabilities))) = 0 \<and>
   data_Permitted (fst (v3_Datap (cap_v3 zero_Capabilities))) = 0 \<and>
   data_Permitted (snd (v3_Datap (cap_v3 zero_Capabilities))) = 0 \<and>
   data_Inheritable (fst (v3_Datap (cap_v3 zero_Capabilities))) = 0 \<and>
   data_Inheritable (snd (v3_Datap (cap_v3 zero_Capabilities))) = 0 \<and>
   v3_Bounds (cap_v3 zero_Capabilities) = (0, 0) \<and>
   v3_Ambient (cap_v3 zero_Capabilities) = (0, 0) \<and>
   \<not> v3_IsEffectiveSet (cap_v3 zero_Capabilities) 40 \<and>
   \<not> v3_IsPermittedSet (cap_v3 zero_Capabilities) 40 \<and>
   \<not> v3_IsInheritableSet (cap_v3 zero_Capabilities) 40 \<and>
   \<not> v3_IsBoundingSet (cap_v3 zero_Capabilities) 40 \<and>
   \<not> v3_IsAmbientSet (cap_v3 zero_Capabilities) 40"
  using v3_zero_words_false [of 40 "cap_v3 zero_Capabilities"]
  by (simp add: zero_Capabilities_def zero_data_def word_sle_eq)

text \<open>
  Claim C10. For a capability index of 32 or more, each V3 predicate tests bit
  \<open>n mod 32\<close> of the second word. So an index of 64 or more gives what the index
  \<open>32 + n % 32\<close> gives, and 64 gives what 32 gives: the call neither fails nor returns
  false for being out of range.
\<close>

theorem v3_high_index_wraps:
  assumes "32 \<le>s n"
  shows "v3_IsEffectiveSet x n = bit (data_Effective (snd (v3_Datap x))) (nat (sint n) mod 32) \<and>
         v3_IsPermittedSet x n = bit (data_Permitted (snd (v3_Datap x))) (nat (sint n) mod 32) \<and>
         v3_IsInheritableSet x n = bit (data_Inheritable (snd (v3_Datap x))) (nat (sint n) mod 32) \<and>
         v3_IsBoundingSet x n = bit (snd (v3_Bounds x)) (nat (sint n) mod 32) \<and>
         v3_IsAmbientSet x n = bit (snd (v3_Ambient x)) (nat (sint n) mod 32) \<and>
         (64 \<le>s n \<longrightarrow>
            v3_IsEffectiveSet x n = v3_IsEffectiveSet x (32 + go_rem n 32) \<and>
            v3_IsPermittedSet x n = v3_IsPermittedSet x (32 + go_rem n 32) \<and>
            v3_IsInheritableSet x n = v3_IsInheritableSet x (32 + go_rem n 32) \<and>
            v3_IsBoundingSet x n = v3_IsBoundingSet x (32 + go_rem n 32) \<and>
            v3_IsAmbientSet x n = v3_IsAmbientSet x (32 + go_rem n 32)) \<and>
         v3_IsEffectiveSet x 64 = v3_IsEffectiveSet x 32 \<and>
         v3_IsPermittedSet x 64 = v3_IsPermittedSet x 32 \<and>
         v3_IsInheritableSet x 64 = v3_IsInheritableSet x 32 \<and>
         v3_IsBoundingSet x 64 = v3_IsBoundingSet x 32 \<and>
         v3_IsAmbientSet x 64 = v3_IsAmbientSet x 32"
proof -
  from assms have gt: "31 <s n"
    by (simp add: gt31_iff)
  have un: "unat n = nat (sint n)"
    using nonneg_of_gt31 [OF gt] by (rule unat_nonneg)
  show ?thesis
    using gt wrapped_index [OF gt] by (simp add: v3_bit un)
qed

theorem v3_high_index_wraps_witness:
  "(32 :: go_int) \<le>s 96 \<and> (64 :: go_int) \<le>s 96 \<and>
   v3_IsEffectiveSet example_v3 96 \<and> v3_IsEffectiveSet example_v3 (32 + go_rem 96 32)"
proof -
  have h32: "(32 :: go_int) \<le>s 96" and h64: "(64 :: go_int) \<le>s 96"
    by simp_all
  note wraps = v3_high_index_wraps [OF h32, of example_v3]
  from wraps have "v3_IsEffectiveSet example_v3 96 =
      bit (data_Effective (snd (v3_Datap example_v3))) (nat (sint (96 :: go_int)) mod 32)"
    by (rule conjunct1)
  then have at_96: "v3_IsEffectiveSet example_v3 96"
    by (simp add: example_v3_def)
  from wraps h64 have
    "v3_IsEffectiveSet example_v3 96 = v3_IsEffectiveSet example_v3 (32 + go_rem 96 32)"
    by blast
  with at_96 h32 h64 show ?thesis
    by (simp only: simp_thms)
qed

section \<open>The facade\<close>

lemmas version_words =
  LINUX_CAPABILITY_VERSION_1_def LINUX_CAPABILITY_VERSION_2_def LINUX_CAPABILITY_VERSION_3_def

lemmas set_kinds = Effective_def Permitted_def Inheritable_def Bounding_def Ambient_def

lemma Init_example_v1:
  "Init (example_sys LINUX_CAPABILITY_VERSION_1) = Returns (Some instance_v1, None)"
  by (simp add: Init_def example_sys_def instance_v1_def zero_Capabilities_def zero_header_def)

lemma Init_example_v3:
  "Init (example_sys LINUX_CAPABILITY_VERSION_3) = Returns (Some instance_v3, None)"
  by (simp add: Init_def example_sys_def instance_v3_def zero_Capabilities_def zero_header_def
      version_words)

lemma isSetFor_Version: "Version (fst (isSetFor sys c pid n k)) = Version c"
  by (simp add: isSetFor_def Let_def split: prod.splits)

lemma isSetFor_error_or_false:
  "snd (snd (isSetFor sys c pid n k)) = None \<or> \<not> fst (snd (isSetFor sys c pid n k))"
  by (simp add: isSetFor_def Let_def split: prod.splits)

lemma isSetFor_v1_other_set:
  assumes "Version c = 1" and "k \<noteq> Effective" and "k \<noteq> Inheritable" and "k \<noteq> Permitted"
  shows "snd (isSetFor sys c pid n k) =
           (False,
            case fst (Capget sys
                        ((v1_Header (cap_v1 c))
                           \<lparr>hdr_Version := LINUX_CAPABILITY_VERSION_1, hdr_Pid := ucast pid\<rparr>)
                        [v1_Data (cap_v1 c)]) of
              None \<Rightarrow> Some (New ''invalid capability set for capability v1'')
            | Some e \<Rightarrow> Some e)"
  using assms by (auto simp add: isSetFor_def Let_def word_sless_alt split: prod.splits)

lemma run_query_Version: "Version (run_query c q) = Version c"
  by (simp add: run_query_def IsSet_def isSetFor_Version)

lemma run_queries_Version: "Version (run_queries c qs) = Version c"
  by (induction qs arbitrary: c) (simp_all add: run_query_Version)

lemma Init_Version:
  assumes "Init sys = Returns (Some c, e)"
  shows "Version c = 1 \<or> Version c = 2 \<or> Version c = 3"
proof -
  obtain err header data where "Capget sys zero_header [] = (err, header, data)"
    by (rule prod_cases3)
  with assms show ?thesis
    by (auto simp add: Init_def split: if_splits)
qed

subsection \<open>Initialization\<close>

text \<open>
  Claim C5. The probe is the call of \<open>Capget\<close> on the zero header with no data buffer.
  When the header it leaves holds none of the three known version words, \<open>Init\<close>
  returns no instance: it panics if the call succeeded and returns the probe error if
  the call failed. When the call succeeded and the header holds the word of version 1,
  2 or 3, \<open>Init\<close> returns an instance with that version and no error.
\<close>

theorem Init_version_gate:
  assumes "Capget sys zero_header [] = (err, header, data)"
  shows "(hdr_Version header \<notin> {LINUX_CAPABILITY_VERSION_1, LINUX_CAPABILITY_VERSION_2,
                                  LINUX_CAPABILITY_VERSION_3} \<longrightarrow>
            (if err = None then Init sys = Panics ''Unsupported Linux capability version''
             else Init sys = Returns (None, Some (New ''unable to probe capability version'')))) \<and>
         (err = None \<and> hdr_Version header = LINUX_CAPABILITY_VERSION_1 \<longrightarrow>
            (\<exists>c. Init sys = Returns (Some c, None) \<and> Version c = 1)) \<and>
         (err = None \<and> hdr_Version header = LINUX_CAPABILITY_VERSION_2 \<longrightarrow>
            (\<exists>c. Init sys = Returns (Some c, None) \<and> Version c = 2)) \<and>
         (err = None \<and> hdr_Version header = LINUX_CAPABILITY_VERSION_3 \<longrightarrow>
            (\<exists>c. Init sys = Returns (Some c, None) \<and> Version c = 3))"
  using assms by (simp add: Init_def version_words)

theorem Init_version_gate_witness:
  "Capget (example_sys 0) zero_header [] = (None, \<lparr>hdr_Version = 0, hdr_Pid = 0\<rparr>, []) \<and>
   Init (example_sys 0) = Panics ''Unsupported Linux capability version'' \<and>
   Capget (example_sys 4) zero_header [] = (None, \<lparr>hdr_Version = 4, hdr_Pid = 0\<rparr>, []) \<and>
   Init (example_sys 4) = Panics ''Unsupported Linux capability version'' \<and>
   Capget (example_sys LINUX_CAPABILITY_VERSION_1) zero_header [] =
     (None, \<lparr>hdr_Version = LINUX_CAPABILITY_VERSION_1, hdr_Pid = 0\<rparr>, []) \<and>
   (\<exists>c. Init (example_sys LINUX_CAPABILITY_VERSION_1) = Returns (Some c, None) \<and> Version c = 1) \<and>
   Capget (example_sys LINUX_CAPABILITY_VERSION_2) zero_header [] =
     (None, \<lparr>hdr_Version = LINUX_CAPABILITY_VERSION_2, hdr_Pid = 0\<rparr>, []) \<and>
   (\<exists>c. Init (example_sys LINUX_CAPABILITY_VERSION_2) = Returns (Some c, None) \<and> Version c = 2) \<and>
   Capget (example_sys LINUX_CAPABILITY_VERSION_3) zero_header [] =
     (None, \<lparr>hdr_Version = LINUX_CAPABILITY_VERSION_3, hdr_Pid = 0\<rparr>, []) \<and>
   (\<exists>c. Init (example_sys LINUX_CAPABILITY_VERSION_3) = Returns (Some c, None) \<and> Version c = 3)"
proof -
  have probe: "Capget (example_sys v) zero_header [] = (None, \<lparr>hdr_Version = v, hdr_Pid = 0\<rparr>, [])"
    for v
    by (simp add: example_sys_def zero_header_def)
  have unknown: "(0 :: uint32) \<notin> {LINUX_CAPABILITY_VERSION_1, LINUX_CAPABILITY_VERSION_2,
      LINUX_CAPABILITY_VERSION_3}" "(4 :: uint32) \<notin> {LINUX_CAPABILITY_VERSION_1,
      LINUX_CAPABILITY_VERSION_2, LINUX_CAPABILITY_VERSION_3}"
    by (simp_all add: version_words)
  show ?thesis
    using Init_version_gate [OF probe [of 0]] Init_version_gate [OF probe [of 4]]
      Init_version_gate [OF probe [of LINUX_CAPABILITY_VERSION_1]]
      Init_version_gate [OF probe [of LINUX_CAPABILITY_VERSION_2]]
      Init_version_gate [OF probe [of LINUX_CAPABILITY_VERSION_3]]
      unknown
    by (simp add: probe)
qed

text \<open>
  Claim C8. The instance of a successful \<open>Init\<close> has version 1, 2 or 3, and the version
  is the same after any call of \<open>isSetFor\<close> or \<open>IsSet\<close>, whatever the kernel answers, and
  so after any sequence of such calls.
\<close>

theorem Version_fixed:
  assumes "Init sys = Returns (Some c, None)"
  shows "(Version c = 1 \<or> Version c = 2 \<or> Version c = 3) \<and>
         Version (fst (isSetFor sys' c pid n k)) = Version c \<and>
         Version (fst (IsSet sys' c pid n k)) = Version c \<and>
         Version (run_queries c qs) = Version c"
  using Init_Version [OF assms]
  by (simp add: isSetFor_Version IsSet_def run_queries_Version)

theorem Version_fixed_witness:
  "Init (example_sys LINUX_CAPABILITY_VERSION_3) = Returns (Some instance_v3, None) \<and>
   Version instance_v3 = 3 \<and>
   Version (run_queries instance_v3 example_queries) = 3"
  using Version_fixed [OF Init_example_v3, of _ _ _ _ example_queries] Init_example_v3
  by (simp add: instance_v3_def)

subsection \<open>Queries\<close>

text \<open>
  Claim C6. Whenever \<open>isSetFor\<close>, and so \<open>IsSet\<close>, returns an error that is not \<open>nil\<close>, the
  boolean it returns with it is false, for every instance, every argument and every
  answer of the kernel.
\<close>

theorem error_implies_false:
  "(snd (snd (isSetFor sys c pid n k)) \<noteq> None \<longrightarrow> fst (snd (isSetFor sys c pid n k)) = False) \<and>
   (snd (snd (IsSet sys c pid n k)) \<noteq> None \<longrightarrow> fst (snd (IsSet sys c pid n k)) = False)"
  using isSetFor_error_or_false [of sys c pid n k]
    isSetFor_error_or_false [of sys c "Getpid sys" n k]
  by (auto simp add: IsSet_def)

theorem error_implies_false_witness:
  "snd (snd (isSetFor (example_sys LINUX_CAPABILITY_VERSION_3) instance_v3 77 0 Effective))
     = Some (Errno 3) \<and>
   fst (snd (isSetFor (example_sys LINUX_CAPABILITY_VERSION_3) instance_v3 77 0 Effective))
     = False \<and>
   snd (snd (IsSet (example_sys LINUX_CAPABILITY_VERSION_3) instance_v3 1 0 9))
     = Some (New ''invalid capability set for capability v2 or v3'') \<and>
   fst (snd (IsSet (example_sys LINUX_CAPABILITY_VERSION_3) instance_v3 1 0 9)) = False"
proof -
  have failed:
    "snd (snd (isSetFor (example_sys LINUX_CAPABILITY_VERSION_3) instance_v3 77 0 Effective))
       = Some (Errno 3)"
    by (simp add: isSetFor_def example_sys_def instance_v3_def word_sless_alt)
  have rejected:
    "snd (snd (IsSet (example_sys LINUX_CAPABILITY_VERSION_3) instance_v3 1 0 9))
       = Some (New ''invalid capability set for capability v2 or v3'')"
    by (simp add: IsSet_def isSetFor_def example_sys_def instance_v3_def word_sless_alt
        set_kinds)
  show ?thesis
    using error_implies_false [of "example_sys LINUX_CAPABILITY_VERSION_3" instance_v3 77 0 Effective]
      error_implies_false [of "example_sys LINUX_CAPABILITY_VERSION_3" instance_v3 1 0 9]
    by (simp add: failed rejected)
qed

text \<open>
  Claim C4, as amended. On an instance of version 1, a query for the Bounding or the
  Ambient set returns false with an error that is not \<open>nil\<close>, for every capability index
  and every pid: the error of the system call when the call fails, and the error
  ``invalid capability set for capability v1'' when it succeeds. The system call is made
  before the set kind is looked at.
\<close>

theorem v1_rejects_Bounding_Ambient:
  assumes "Version c = 1" and "capSet = Bounding \<or> capSet = Ambient"
  shows "snd (isSetFor sys c pid n capSet) =
           (False,
            case fst (Capget sys
                        ((v1_Header (cap_v1 c))
                           \<lparr>hdr_Version := LINUX_CAPABILITY_VERSION_1, hdr_Pid := ucast pid\<rparr>)
                        [v1_Data (cap_v1 c)]) of
              None \<Rightarrow> Some (New ''invalid capability set for capability v1'')
            | Some e \<Rightarrow> Some e) \<and>
         fst (snd (IsSet sys c pid n capSet)) = False \<and>
         snd (snd (IsSet sys c pid n capSet)) \<noteq> None"
proof -
  from assms(2) have other: "capSet \<noteq> Effective" "capSet \<noteq> Inheritable" "capSet \<noteq> Permitted"
    by (auto simp add: set_kinds)
  note at_pid = isSetFor_v1_other_set [OF assms(1) other, of sys pid n]
  note at_self = isSetFor_v1_other_set [OF assms(1) other, of sys "Getpid sys" n]
  from at_self have "fst (snd (IsSet sys c pid n capSet)) = False"
    and "snd (snd (IsSet sys c pid n capSet)) \<noteq> None"
    by (simp_all add: IsSet_def split: option.splits)
  with at_pid show ?thesis
    by (simp only: simp_thms)
qed

theorem v1_rejects_Bounding_Ambient_witness:
  "Version instance_v1 = 1 \<and>
   snd (isSetFor (example_sys LINUX_CAPABILITY_VERSION_1) instance_v1 4242 7 Bounding) =
     (False, Some (New ''invalid capability set for capability v1'')) \<and>
   snd (isSetFor (example_sys LINUX_CAPABILITY_VERSION_1) instance_v1 77 7 Ambient) =
     (False, Some (Errno 3))"
proof -
  have v: "Version instance_v1 = 1"
    by (simp add: instance_v1_def)
  show ?thesis
    using v
      v1_rejects_Bounding_Ambient [OF v, of Bounding "example_sys LINUX_CAPABILITY_VERSION_1" 4242 7]
      v1_rejects_Bounding_Ambient [OF v, of Ambient "example_sys LINUX_CAPABILITY_VERSION_1" 77 7]
    by (simp add: example_sys_def instance_v1_def)
qed

text \<open>
  The claim as it was stated fails where the system call fails: on the version 1
  instance, the Bounding query for the process 77, which does not exist, returns the
  error number of the kernel and not the invalid-set error.
\<close>

theorem v1_Bounding_syscall_error_counterexample:
  "Init (example_sys LINUX_CAPABILITY_VERSION_1) = Returns (Some instance_v1, None) \<and>
   Version instance_v1 = 1 \<and>
   snd (isSetFor (example_sys LINUX_CAPABILITY_VERSION_1) instance_v1 77 0 Bounding) =
     (False, Some (Errno 3)) \<and>
   snd (isSetFor (example_sys LINUX_CAPABILITY_VERSION_1) instance_v1 77 0 Bounding) \<noteq>
     (False, Some (New ''invalid capability set for capability v1''))"
proof -
  have "snd (isSetFor (example_sys LINUX_CAPABILITY_VERSION_1) instance_v1 77 0 Bounding) =
     (False, Some (Errno 3))"
    by (simp add: isSetFor_def example_sys_def instance_v1_def word_sless_alt)
  then show ?thesis
    by (simp add: Init_example_v1) (simp add: instance_v1_def)
qed

text \<open>
  Claim C1. \<open>IsSet\<close> does not use its pid: it queries the process \<open>os.Getpid()\<close>. On the
  example kernel, where the caller is process 4242 and only process 1 holds capability
  0, \<open>isSetFor\<close> for process 1 answers true, and \<open>IsSet\<close> for process 1 answers false and
  leaves the pid 4242 in the header it passed to the kernel.
\<close>

theorem IsSet_ignores_pid:
  "IsSet sys c pid n k = IsSet sys c pid' n k \<and>
   Init (example_sys LINUX_CAPABILITY_VERSION_3) = Returns (Some instance_v3, None) \<and>
   snd (isSetFor (example_sys LINUX_CAPABILITY_VERSION_3) instance_v3 1 0 Effective) = (True, None) \<and>
   snd (IsSet (example_sys LINUX_CAPABILITY_VERSION_3) instance_v3 1 0 Effective) = (False, None) \<and>
   hdr_Pid (v3_Header (cap_v3 (fst
     (isSetFor (example_sys LINUX_CAPABILITY_VERSION_3) instance_v3 1 0 Effective)))) = 1 \<and>
   hdr_Pid (v3_Header (cap_v3 (fst
     (IsSet (example_sys LINUX_CAPABILITY_VERSION_3) instance_v3 1 0 Effective)))) = 4242"
proof -
  have "IsSet sys c pid n k = IsSet sys c pid' n k"
    by (simp add: IsSet_def)
  moreover have
    "snd (isSetFor (example_sys LINUX_CAPABILITY_VERSION_3) instance_v3 1 0 Effective) = (True, None)"
    "hdr_Pid (v3_Header (cap_v3 (fst
       (isSetFor (example_sys LINUX_CAPABILITY_VERSION_3) instance_v3 1 0 Effective)))) = 1"
    by (simp_all add: isSetFor_def example_sys_def instance_v3_def word_sless_alt set_kinds
        written_def init_data_def v3_IsEffectiveSet_def split_index_def index2_def shl1_def)
  moreover have
    "snd (IsSet (example_sys LINUX_CAPABILITY_VERSION_3) instance_v3 1 0 Effective) = (False, None)"
    "hdr_Pid (v3_Header (cap_v3 (fst
       (IsSet (example_sys LINUX_CAPABILITY_VERSION_3) instance_v3 1 0 Effective)))) = 4242"
    by (simp_all add: IsSet_def isSetFor_def example_sys_def instance_v3_def word_sless_alt
        set_kinds written_def zero_data_def v3_IsEffectiveSet_def split_index_def index2_def
        shl1_def)
  ultimately show ?thesis
    by (simp only: Init_example_v3 simp_thms)
qed

end
